theory Spec2Isabelle
  imports Complex_Main "HOL-Library.Multiset"
begin

section \<open>Python exceptions and message formatting\<close>

text \<open>
  Every \<^verbatim>\<open>raise\<close> of the source, and every exception raised by a library call the
  source makes, is a value of \<open>py_error\<close>. \<open>ValueError\<close> carries the message text built by
  the source. \<open>IndexError\<close> is Python's own, for a list read out of range. \<open>NumpyError\<close>
  stands for any exception raised inside a numpy call (a shape that does not fit, an
  axis out of range, a shape that is not made of integers), \<open>LinAlgFailure\<close> for one
  raised by a decomposition or the eigensolver (no convergence).
\<close>

datatype py_error =
    ValueError string
  | IndexError
  | NumpyError
  | UnboundLocalError string
  | LinAlgFailure

text \<open>The decimal digit of a number below ten, read from the string of the ten digits.\<close>

definition digit_char :: "nat \<Rightarrow> char" where
  "digit_char n = ''0123456789'' ! n"

fun fmt_nat :: "nat \<Rightarrow> string" where
  "fmt_nat n = (if n < 10 then [digit_char n] else fmt_nat (n div 10) @ [digit_char (n mod 10)])"

declare fmt_nat.simps [simp del]

text \<open>Python's \<^verbatim>\<open>'%i' % x\<close> for an integer \<open>x\<close>: decimal digits, with a minus sign.\<close>

definition fmt_i :: "int \<Rightarrow> string" where
  "fmt_i x = (if x < 0 then CHR ''-'' # fmt_nat (nat (- x)) else fmt_nat (nat x))"

section \<open>The numpy operations on label arrays that ncon uses\<close>

text \<open>\<^verbatim>\<open>np.unique(a)\<close>: the sorted distinct elements.\<close>

definition np_unique :: "int list \<Rightarrow> int list" where
  "np_unique xs = sort (remdups xs)"

text \<open>\<^verbatim>\<open>sum(a == x)\<close>: the number of entries of \<open>a\<close> equal to \<open>x\<close>.\<close>

definition np_count :: "int list \<Rightarrow> int \<Rightarrow> nat" where
  "np_count xs x = length (filter (\<lambda>y. y = x) xs)"

text \<open>\<^verbatim>\<open>a[mask]\<close> for a boolean mask of the same length.\<close>

definition np_mask :: "'a list \<Rightarrow> bool list \<Rightarrow> 'a list" where
  "np_mask xs bs = map fst (filter snd (zip xs bs))"

text \<open>\<^verbatim>\<open>np.delete(a, idx)\<close>: the entries whose position is not listed in \<open>idx\<close>.\<close>

definition np_delete :: "'a list \<Rightarrow> nat list \<Rightarrow> 'a list" where
  "np_delete xs idx = map (\<lambda>i. xs ! i) (filter (\<lambda>i. i \<notin> set idx) [0..<length xs])"

text \<open>The position of the first occurrence of \<open>x\<close> in \<open>xs\<close> (\<open>length xs\<close> when absent).\<close>

fun first_index :: "'a list \<Rightarrow> 'a \<Rightarrow> nat" where
  "first_index [] x = 0"
| "first_index (y # ys) x = (if y = x then 0 else Suc (first_index ys x))"

text \<open>
  \<^verbatim>\<open>np.intersect1d(a, b, return_indices=True)\<close>: the sorted common values, and for each
  the position of its first occurrence in \<open>a\<close> and in \<open>b\<close>. With
  \<^verbatim>\<open>assume_unique=True\<close> numpy promises this result for arrays without repeated
  entries only, which is how ncon calls it: after the partial traces no label is
  repeated within a tensor.
\<close>

definition np_intersect1d :: "int list \<Rightarrow> int list \<Rightarrow> int list \<times> nat list \<times> nat list" where
  "np_intersect1d a b =
     (let common = filter (\<lambda>x. x \<in> set b) (np_unique a)
      in (common, map (first_index a) common, map (first_index b) common))"

text \<open>
  \<^verbatim>\<open>np.argsort(a)\<close>: the positions of \<open>a\<close> in ascending order of their entries. A stable
  insertion sort on (entry, position) pairs; for distinct entries every sorting
  algorithm gives this result.
\<close>

definition np_argsort :: "'a::linorder list \<Rightarrow> nat list" where
  "np_argsort xs = map snd (sort_key fst (zip xs [0..<length xs]))"

text \<open>\<^verbatim>\<open>a[idx]\<close> for an array of positions, and \<^verbatim>\<open>np.prod\<close>.\<close>

definition np_take :: "'a list \<Rightarrow> nat list \<Rightarrow> 'a list" where
  "np_take xs idx = map (\<lambda>i. xs ! i) idx"

definition np_prod :: "nat list \<Rightarrow> nat" where
  "np_prod ds = foldr (\<lambda>d p. d * p) ds 1"

section \<open>check_inputs\<close>

text \<open>
  The rank check's message is the bare template: in the source the line that applies
  \<^verbatim>\<open>% (ele, len(dims_list[ele]), len(connect_list[ele]))\<close> to it is commented out, so the
  text given to \<^verbatim>\<open>ValueError\<close> still holds the three \<^verbatim>\<open>%i\<close> place holders.
\<close>

definition rank_mismatch_message :: string where
  "rank_mismatch_message =
     ''number of indices does not match number of labels on tensor %i: '' @
     ''%i-indices versus %i-labels''"

definition count_mismatch_message :: "nat \<Rightarrow> nat \<Rightarrow> string" where
  "count_mismatch_message n m =
     ''mismatch between '' @ fmt_nat n @ '' tensors given but '' @ fmt_nat m @
     '' index sublists given''"

definition no_index_message :: "int \<Rightarrow> string" where
  "no_index_message ind = ''NCON error: no index labelled '' @ fmt_i ind"

definition many_neg_message :: "int \<Rightarrow> string" where
  "many_neg_message ind = ''NCON error: more than one index labelled '' @ fmt_i ind"

definition only_one_message :: "int \<Rightarrow> string" where
  "only_one_message ind = ''NCON error: only one index labelled '' @ fmt_i ind"

definition more_than_two_message :: "int \<Rightarrow> string" where
  "more_than_two_message ind = ''NCON error: more than two indices labelled '' @ fmt_i ind"

definition dim_mismatch_message :: "int \<Rightarrow> nat \<Rightarrow> nat \<Rightarrow> string" where
  "dim_mismatch_message ind d0 d1 =
     ''NCON error: tensor dimension mismatch on index labelled '' @ fmt_i ind @
     '': dim-'' @ fmt_nat d0 @ '' versus dim-'' @ fmt_nat d1"

text \<open>The loop over the tensors: the first tensor whose rank differs from its label count.\<close>

definition check_ranks :: "int list list \<Rightarrow> nat list list \<Rightarrow> py_error option" where
  "check_ranks connect_list dims_list =
     (case find (\<lambda>ele. length (dims_list ! ele) \<noteq> length (connect_list ! ele))
             [0..<length dims_list] of
        Some ele \<Rightarrow> Some (ValueError rank_mismatch_message)
      | None \<Rightarrow> None)"

text \<open>The loop over \<^verbatim>\<open>np.arange(-1, -len(neg_ind) - 1, -1)\<close>.\<close>

fun check_neg :: "int list \<Rightarrow> int list \<Rightarrow> py_error option" where
  "check_neg neg_ind [] = None"
| "check_neg neg_ind (ind # inds) =
     (if np_count neg_ind ind = 0 then Some (ValueError (no_index_message ind))
      else if np_count neg_ind ind > 1 then Some (ValueError (many_neg_message ind))
      else check_neg neg_ind inds)"

text \<open>
  The loop over \<^verbatim>\<open>np.unique(pos_ind)\<close>. \<open>cont_dims\<close> is read at positions 0 and 1; it has
  exactly two entries there, since the label occurs twice and the rank check has made
  \<open>flat_dims\<close> as long as \<open>flat_connect\<close>.
\<close>

fun check_pos :: "int list \<Rightarrow> int list \<Rightarrow> nat list \<Rightarrow> int list \<Rightarrow> py_error option" where
  "check_pos pos_ind flat_connect flat_dims [] = None"
| "check_pos pos_ind flat_connect flat_dims (ind # inds) =
     (if np_count pos_ind ind = 1 then Some (ValueError (only_one_message ind))
      else if np_count pos_ind ind > 2 then Some (ValueError (more_than_two_message ind))
      else
        (let cont_dims = np_mask flat_dims (map (\<lambda>l. l = ind) flat_connect)
         in if cont_dims ! 0 \<noteq> cont_dims ! 1
            then Some (ValueError (dim_mismatch_message ind (cont_dims ! 0) (cont_dims ! 1)))
            else check_pos pos_ind flat_connect flat_dims inds))"

definition check_inputs ::
  "int list list \<Rightarrow> int list \<Rightarrow> nat list list \<Rightarrow> int list \<Rightarrow> py_error + bool" where
  "check_inputs connect_list flat_connect dims_list con_order =
     (let pos_ind = filter (\<lambda>l. l > 0) flat_connect;
          neg_ind = filter (\<lambda>l. l < 0) flat_connect
      in if length dims_list \<noteq> length connect_list
         then Inl (ValueError (count_mismatch_message (length dims_list) (length connect_list)))
         else (case check_ranks connect_list dims_list of
           Some e \<Rightarrow> Inl e
         | None \<Rightarrow>
             if sort con_order \<noteq> np_unique pos_ind
             then Inl (ValueError ''NCON error: invalid contraction order'')
             else (case check_neg neg_ind (map (\<lambda>i. - int (Suc i)) [0..<length neg_ind]) of
               Some e \<Rightarrow> Inl e
             | None \<Rightarrow>
                 (case check_pos pos_ind flat_connect (concat dims_list) (np_unique pos_ind) of
                    Some e \<Rightarrow> Inl e
                  | None \<Rightarrow> Inr True))))"

section \<open>The contractor on shapes and labels\<close>

text \<open>
  A tensor is modelled by its shape, the list of its dimension sizes; the entries of the
  arrays are not part of the model. Everything ncon decides (which axes are traced,
  which tensors are contracted and along which axes, the order of the axes of every
  intermediate and of the result, and every exception) depends on the shapes and the
  labels only.
\<close>

record ncon_state =
  tensor_list :: "nat list list"
  connect_list :: "int list list"
  con_order :: "int list"

text \<open>
  The result of ncon: a scalar, or an array. \<open>out_labels\<close> is not a value of the source:
  it records, for each axis of the returned array, the label of the network it comes
  from, moved by the same \<^verbatim>\<open>np.transpose\<close> as the axes themselves.
\<close>

datatype ncon_result = Scalar | Array (out_shape: "nat list") (out_labels: "int list")

text \<open>\<^verbatim>\<open>del xs[i]\<close>.\<close>

definition del_at :: "'a list \<Rightarrow> nat \<Rightarrow> 'a list" where
  "del_at xs i = take i xs @ drop (Suc i) xs"

text \<open>\<^verbatim>\<open>np.where(A_label == ele)[0]\<close>: the positions that hold \<open>ele\<close>.\<close>

definition np_where :: "int list \<Rightarrow> int \<Rightarrow> nat list" where
  "np_where xs x = filter (\<lambda>i. xs ! i = x) [0..<length xs]"

text \<open>
  \<^verbatim>\<open>partial_trace(A, A_label)\<close>. \<^verbatim>\<open>np.array(dup_list).reshape(2 * num_cont, order='F')\<close>
  exists only when every repeated label occurs exactly twice; it then lists the first
  positions of the repeated labels, in ascending order of the labels, followed by their
  second positions. The transpose needs as many axes as there are labels, and the
  reshape to \<^verbatim>\<open>(prod(free_dim), cont_dim, cont_dim)\<close> needs that many entries.
\<close>

definition partial_trace ::
  "nat list \<Rightarrow> int list \<Rightarrow> py_error + (nat list \<times> int list \<times> int list)" where
  "partial_trace A A_label =
     (let num_cont = length A_label - length (np_unique A_label)
      in if num_cont > 0 then
           (let dup_list = map (np_where A_label)
                             (filter (\<lambda>ele. np_count A_label ele > 1) (np_unique A_label))
            in if \<not> list_all (\<lambda>ps. length ps = 2) dup_list then Inl NumpyError
               else if length A \<noteq> length A_label then Inl NumpyError
               else
                 (let cont_ind = map (\<lambda>ps. ps ! 0) dup_list @ map (\<lambda>ps. ps ! 1) dup_list;
                      free_ind = np_delete [0..<length A_label] cont_ind;
                      cont_dim = np_prod (np_take A (take num_cont cont_ind));
                      free_dim = np_take A free_ind;
                      B_label = np_delete A_label cont_ind;
                      cont_label = np_unique (np_take A_label cont_ind)
                  in if np_prod A \<noteq> np_prod free_dim * cont_dim * cont_dim
                     then Inl NumpyError
                     else Inr (free_dim, B_label, cont_label)))
         else Inr (A, A_label, []))"

text \<open>One round of the loop \<^verbatim>\<open>for ele in range(len(tensor_list))\<close> that does the partial traces.\<close>

definition trace_step :: "nat \<Rightarrow> ncon_state \<Rightarrow> py_error + ncon_state" where
  "trace_step ele s =
     (let num_cont = length (connect_list s ! ele) - length (np_unique (connect_list s ! ele))
      in if num_cont > 0 then
           (case partial_trace (tensor_list s ! ele) (connect_list s ! ele) of
              Inl e \<Rightarrow> Inl e
            | Inr (B, B_label, cont_ind) \<Rightarrow>
                Inr \<lparr>tensor_list = (tensor_list s)[ele := B],
                     connect_list = (connect_list s)[ele := B_label],
                     con_order = np_delete (con_order s)
                                   (fst (snd (np_intersect1d (con_order s) cont_ind)))\<rparr>)
         else Inr s)"

fun trace_pass :: "nat list \<Rightarrow> ncon_state \<Rightarrow> py_error + ncon_state" where
  "trace_pass [] s = Inr s"
| "trace_pass (ele # eles) s =
     (case trace_step ele s of Inl e \<Rightarrow> Inl e | Inr s' \<Rightarrow> trace_pass eles s')"

text \<open>
  \<^verbatim>\<open>np.tensordot(a, b, axes=(axes_a, axes_b))\<close> on shapes: the paired axes must exist and
  have equal sizes; the result has the remaining axes of \<open>a\<close>, then those of \<open>b\<close>.
\<close>

definition np_tensordot ::
  "nat list \<Rightarrow> nat list \<Rightarrow> nat list \<Rightarrow> nat list \<Rightarrow> py_error + nat list" where
  "np_tensordot a b axes_a axes_b =
     (if length axes_a = length axes_b
         \<and> list_all (\<lambda>k. k < length a) axes_a \<and> list_all (\<lambda>k. k < length b) axes_b
         \<and> map (\<lambda>k. a ! k) axes_a = map (\<lambda>k. b ! k) axes_b
      then Inr (np_delete a axes_a @ np_delete b axes_b)
      else Inl NumpyError)"

text \<open>
  One round of the loop \<^verbatim>\<open>while len(con_order) > 0\<close>. Reading \<^verbatim>\<open>locs[1]\<close> raises
  \<open>IndexError\<close> when fewer than two tensors carry the label.
\<close>

definition contract_step :: "ncon_state \<Rightarrow> py_error + ncon_state" where
  "contract_step s =
     (let cont_ind = con_order s ! 0;
          locs = filter (\<lambda>ele. np_count (connect_list s ! ele) cont_ind > 0)
                   [0..<length (connect_list s)]
      in if length locs < 2 then Inl IndexError
         else
           (let l0 = locs ! 0; l1 = locs ! 1;
                c0 = connect_list s ! l0; c1 = connect_list s ! l1;
                t0 = tensor_list s ! l0; t1 = tensor_list s ! l1;
                cont_many = fst (np_intersect1d c0 c1);
                A_cont = fst (snd (np_intersect1d c0 c1));
                B_cont = snd (snd (np_intersect1d c0 c1));
                ind_order = (if np_prod t0 < np_prod t1 then np_argsort A_cont
                             else np_argsort B_cont)
            in case np_tensordot t0 t1 (np_take A_cont ind_order) (np_take B_cont ind_order) of
                 Inl e \<Rightarrow> Inl e
               | Inr t \<Rightarrow>
                   Inr \<lparr>tensor_list = del_at (del_at (tensor_list s @ [t]) l1) l0,
                        connect_list =
                          del_at (del_at (connect_list s @ [np_delete c0 A_cont @ np_delete c1 B_cont]) l1) l0,
                        con_order = np_delete (con_order s)
                                      (fst (snd (np_intersect1d (con_order s) cont_many)))\<rparr>))"

text \<open>
  The loop \<^verbatim>\<open>while len(con_order) > 0\<close> ends: the label it reads, \<^verbatim>\<open>con_order[0]\<close>, is on
  both tensors it contracts, so it is among the labels deleted from \<open>con_order\<close>.
\<close>

lemma length_np_delete_less:
  assumes "i < length xs" and "i \<in> set idx"
  shows "length (np_delete xs idx) < length xs"
proof -
  have "length (filter (\<lambda>i. i \<notin> set idx) [0..<length xs]) < length [0..<length xs]"
    by (rule length_filter_less[of i]) (use assms in auto)
  then show ?thesis by (simp add: np_delete_def)
qed

lemma first_index_hd: "xs \<noteq> [] \<Longrightarrow> first_index xs (xs ! 0) = 0"
  by (cases xs) auto

lemma np_count_pos_iff: "np_count xs x > 0 \<longleftrightarrow> x \<in> set xs"
  by (auto simp: np_count_def filter_empty_conv)

lemma set_np_unique [simp]: "set (np_unique xs) = set xs"
  by (simp add: np_unique_def)

lemma contract_step_decreases:
  assumes "contract_step s = Inr s'" and "con_order s \<noteq> []"
  shows "length (con_order s') < length (con_order s)"
proof -
  define cont_ind where "cont_ind = con_order s ! 0"
  define locs where "locs = filter (\<lambda>ele. np_count (connect_list s ! ele) cont_ind > 0)
                   [0..<length (connect_list s)]"
  from assms(1) have len: "\<not> length locs < 2"
    unfolding contract_step_def Let_def locs_def cont_ind_def by (auto split: if_splits)
  then have "0 < length locs" "1 < length locs" by auto
  then have "locs ! 0 \<in> set locs" "locs ! 1 \<in> set locs" by (simp_all only: nth_mem)
  then have in0: "cont_ind \<in> set (connect_list s ! (locs ! 0))"
    and in1: "cont_ind \<in> set (connect_list s ! (locs ! 1))"
    unfolding locs_def by (auto simp: np_count_pos_iff)
  define cont_many where
    "cont_many = fst (np_intersect1d (connect_list s ! (locs ! 0)) (connect_list s ! (locs ! 1)))"
  have cm: "cont_ind \<in> set cont_many"
    using in0 in1 by (simp add: cont_many_def np_intersect1d_def Let_def)
  have "0 \<in> set (fst (snd (np_intersect1d (con_order s) cont_many)))"
  proof -
    have "cont_ind \<in> set (con_order s)" using assms(2) by (simp add: cont_ind_def)
    then have "cont_ind \<in> set (filter (\<lambda>x. x \<in> set cont_many) (np_unique (con_order s)))"
      using cm by simp
    then have "first_index (con_order s) cont_ind
                 \<in> set (fst (snd (np_intersect1d (con_order s) cont_many)))"
      by (simp add: np_intersect1d_def Let_def)
    then show ?thesis using first_index_hd[OF assms(2)] by (simp add: cont_ind_def)
  qed
  then have "length (np_delete (con_order s) (fst (snd (np_intersect1d (con_order s) cont_many))))
               < length (con_order s)"
    using assms(2) by (intro length_np_delete_less[of 0]) auto
  moreover have "con_order s' =
      np_delete (con_order s) (fst (snd (np_intersect1d (con_order s) cont_many)))"
    using assms(1) len unfolding contract_step_def Let_def locs_def cont_ind_def cont_many_def
    by (auto split: if_splits sum.splits)
  ultimately show ?thesis by simp
qed

function contract_pass :: "ncon_state \<Rightarrow> py_error + ncon_state" where
  "contract_pass s =
     (if length (con_order s) > 0
      then (case contract_step s of Inl e \<Rightarrow> Inl e | Inr s' \<Rightarrow> contract_pass s')
      else Inr s)"
  by pat_completeness auto
termination contract_pass
  by (relation "measure (\<lambda>s. length (con_order s))") (auto intro: contract_step_decreases)

declare contract_pass.simps [simp del]

text \<open>
  The loop \<^verbatim>\<open>while len(tensor_list) > 1\<close> of outer products. \<^verbatim>\<open>np.append(s1, s2)\<close> of two
  shape tuples is an array of floats as soon as one of them is the empty tuple, and
  \<^verbatim>\<open>reshape\<close> refuses a shape of floats unless it has no entry at all: the outer product
  with a rank-0 tensor raises, unless both tensors have rank 0.
\<close>

function outer_pass :: "ncon_state \<Rightarrow> py_error + ncon_state" where
  "outer_pass s =
     (if length (tensor_list s) > 1 then
        (let n = length (tensor_list s);
             s1 = tensor_list s ! (n - 2);
             s2 = tensor_list s ! (n - 1);
             c1 = connect_list s ! (n - 2);
             c2 = connect_list s ! (n - 1)
         in if (s1 = []) \<noteq> (s2 = []) then Inl NumpyError
            else outer_pass
                   (s\<lparr>tensor_list := butlast ((tensor_list s)[n - 2 := s1 @ s2]),
                      connect_list := butlast ((connect_list s)[n - 2 := c1 @ c2])\<rparr>))
      else Inr s)"
  by pat_completeness auto
termination outer_pass
  by (relation "measure (\<lambda>s. length (tensor_list s))") auto

declare outer_pass.simps [simp del]

text \<open>
  The final permutation: \<^verbatim>\<open>np.transpose(t, perm)\<close> puts axis \<open>perm[i]\<close> of \<open>t\<close> at position
  \<open>i\<close>, and needs one entry of \<open>perm\<close> per axis. With no label left the result is
  \<^verbatim>\<open>t.item()\<close>, which needs an array of one entry.
\<close>

definition final_permutation :: "ncon_state \<Rightarrow> py_error + ncon_result" where
  "final_permutation s =
     (let t = tensor_list s ! 0; c = connect_list s ! 0
      in if length c > 0 then
           (let perm = np_argsort (map uminus c)
            in if length perm \<noteq> length t then Inl NumpyError
               else Inr (Array (np_take t perm) (np_take c perm)))
         else if np_prod t = 1 then Inr Scalar else Inl NumpyError)"

text \<open>
  \<^verbatim>\<open>ncon(tensors, connects, con_order, check_network)\<close>. \<^verbatim>\<open>connects[ele]\<close> is read for
  every tensor (an \<open>IndexError\<close> when there are fewer label lists than tensors),
  \<^verbatim>\<open>np.concatenate\<close> refuses an empty list of arrays. The order is a list of labels or
  \<^verbatim>\<open>None\<close>; the string values of the source's signature are not modelled.
\<close>

definition ncon ::
  "nat list list \<Rightarrow> int list list \<Rightarrow> int list option \<Rightarrow> bool \<Rightarrow> py_error + ncon_result" where
  "ncon tensors connects con_order_arg check_network =
     (let num_tensors = length tensors
      in if length connects < num_tensors then Inl IndexError
         else if num_tensors = 0 then Inl NumpyError
         else
           (let connects0 = take num_tensors connects;
                flat_connect = concat connects0;
                order0 = (case con_order_arg of
                            None \<Rightarrow> np_unique (filter (\<lambda>l. l > 0) flat_connect)
                          | Some co \<Rightarrow> co)
            in case (if check_network
                     then check_inputs connects0 flat_connect tensors order0
                     else Inr True) of
                 Inl e \<Rightarrow> Inl e
               | Inr ok \<Rightarrow>
                   (case trace_pass [0..<num_tensors]
                           \<lparr>tensor_list = tensors, connect_list = connects0, con_order = order0\<rparr> of
                      Inl e \<Rightarrow> Inl e
                    | Inr s1 \<Rightarrow>
                        (case contract_pass s1 of
                           Inl e \<Rightarrow> Inl e
                         | Inr s2 \<Rightarrow>
                             (case outer_pass s2 of
                                Inl e \<Rightarrow> Inl e
                              | Inr s3 \<Rightarrow> final_permutation s3)))))"

section \<open>Validation errors of ncon\<close>


lemma check_ranks_None_iff:
  "check_ranks cl dl = None \<longleftrightarrow> (\<forall>ele<length dl. length (dl ! ele) = length (cl ! ele))"
proof -
  have "find (\<lambda>ele. length (dl ! ele) \<noteq> length (cl ! ele)) [0..<length dl] = None
          \<longleftrightarrow> (\<forall>ele<length dl. length (dl ! ele) = length (cl ! ele))"
    by (auto simp: find_None_iff)
  then show ?thesis
    by (cases "find (\<lambda>ele. length (dl ! ele) \<noteq> length (cl ! ele)) [0..<length dl]")
       (simp_all add: check_ranks_def)
qed




lemma ncon_check_error:
  assumes "tensors \<noteq> []" and "length tensors \<le> length connects"
    and "check_inputs (take (length tensors) connects) (concat (take (length tensors) connects))
           tensors
           (case con_order_arg of
              None \<Rightarrow> np_unique (filter (\<lambda>l. l > 0) (concat (take (length tensors) connects)))
            | Some co \<Rightarrow> co) = Inl e"
  shows "ncon tensors connects con_order_arg True = Inl e"
  using assms by (simp add: ncon_def Let_def)


lemma ncon_rank_mismatch_raises:
  assumes "tensors \<noteq> []" and "length tensors \<le> length connects"
    and "ele < length tensors" and "length (tensors ! ele) \<noteq> length (connects ! ele)"
  shows "ncon tensors connects con_order_arg True = Inl (ValueError rank_mismatch_message)"
proof -
  have "check_ranks (take (length tensors) connects) tensors \<noteq> None"
    using assms(3,4) by (auto simp: check_ranks_None_iff)
  then have "check_ranks (take (length tensors) connects) tensors
               = Some (ValueError rank_mismatch_message)"
    by (auto simp: check_ranks_def split: option.splits)
  then show ?thesis
    using assms(1,2) by (intro ncon_check_error) (simp_all add: check_inputs_def Let_def)
qed






section \<open>The iteration loop of doTEBD\<close>

text \<open>Sequencing: an exception ends the computation, a result is passed on.\<close>

definition and_then :: "'e + 'a \<Rightarrow> ('a \<Rightarrow> 'e + 'b) \<Rightarrow> 'e + 'b" where
  "and_then m f = (case m of Inl e \<Rightarrow> Inl e | Inr x \<Rightarrow> f x)"

text \<open>
  The two blocks of the loop body. \<open>CanonMeasure k\<close>: the block under
  \<^verbatim>\<open>if np.mod(k, midsteps) == 0 or (k == numiter)\<close> ran in iteration \<open>k\<close>; \<open>Evolve k\<close>:
  the block under \<^verbatim>\<open>if k < numiter\<close> ran in iteration \<open>k\<close>.
\<close>

datatype event = CanonMeasure int | Evolve int

text \<open>
  The functions doTEBD calls compute with floating-point arrays (matrix exponential,
  eigensolver, decompositions, contractions). What doTEBD itself decides, which block
  runs in which iteration, what is appended to which trace, and which exception ends the
  run, does not depend on the numbers they return, only on whether they return. They
  are parameters of the model: \<open>'a\<close> is the type of arrays and \<open>'c\<close> the type of scalars,
  and each function either raises or returns.
  \<open>k_gate_real tau A ham\<close> is \<^verbatim>\<open>expm(1j * tau * ham.reshape(d**2, d**2)).reshape(d, d, d, d)\<close>
  with \<^verbatim>\<open>d = A.shape[1]\<close>, \<open>k_gate_imag\<close> the same with \<^verbatim>\<open>-tau\<close>;
  \<open>k_eye_env A i\<close> is \<^verbatim>\<open>np.eye(A.shape[i]) / A.shape[i]\<close> (\<open>A\<close> is a rank-3 array, as
  documented); \<open>k_normalize sL T sR\<close> is \<open>T\<close> divided by the square root of
  \<^verbatim>\<open>ncon([np.diag(sL**2), T, np.conj(T), np.diag(sR**2)], ...)\<close>; \<open>k_bond_energy ham rho\<close>
  is \<^verbatim>\<open>ncon([ham, rho], [[1, 2, 3, 4], [1, 2, 3, 4]])\<close>; \<open>k_half_sum x y\<close> is
  \<^verbatim>\<open>0.5 * (x + y)\<close>; the others are the source's functions of the same name.
\<close>

record ('a, 'c) linalg =
  k_gate_real :: "real \<Rightarrow> 'a \<Rightarrow> 'a \<Rightarrow> py_error + 'a"
  k_gate_imag :: "real \<Rightarrow> 'a \<Rightarrow> 'a \<Rightarrow> py_error + 'a"
  k_eye_env :: "'a \<Rightarrow> nat \<Rightarrow> 'a"
  k_left_contract_MPS :: "'a \<Rightarrow> 'a \<Rightarrow> 'a \<Rightarrow> 'a \<Rightarrow> 'a \<Rightarrow> py_error + ('a \<times> 'a)"
  k_right_contract_MPS :: "'a \<Rightarrow> 'a \<Rightarrow> 'a \<Rightarrow> 'a \<Rightarrow> 'a \<Rightarrow> py_error + ('a \<times> 'a)"
  k_orthog_MPS :: "'a \<Rightarrow> 'a \<Rightarrow> 'a \<Rightarrow> 'a \<Rightarrow> 'a \<Rightarrow> py_error + ('a \<times> 'a \<times> 'a)"
  k_normalize :: "'a \<Rightarrow> 'a \<Rightarrow> 'a \<Rightarrow> py_error + 'a"
  k_loc_density_MPS :: "'a \<Rightarrow> 'a \<Rightarrow> 'a \<Rightarrow> 'a \<Rightarrow> py_error + ('a \<times> 'a)"
  k_bond_energy :: "'a \<Rightarrow> 'a \<Rightarrow> py_error + 'c"
  k_half_sum :: "'c \<Rightarrow> 'c \<Rightarrow> 'c"
  k_find_mz :: "'a \<Rightarrow> 'a \<Rightarrow> 'a \<Rightarrow> 'a \<Rightarrow> 'a \<Rightarrow> py_error + 'c"
  k_apply_gate_MPS :: "'a \<Rightarrow> 'a \<Rightarrow> 'a \<Rightarrow> 'a \<Rightarrow> 'a \<Rightarrow> int \<Rightarrow> py_error + ('a \<times> 'a \<times> 'a)"

text \<open>
  The local variables of doTEBD that live across iterations. \<open>st_events\<close> is not a
  variable of the source: it logs the blocks of the loop body as they complete.
\<close>

record ('a, 'c) tebd_state =
  st_A :: 'a
  st_B :: 'a
  st_sAB :: 'a
  st_sBA :: 'a
  st_sigBA :: 'a
  st_muAB :: 'a
  st_time :: "int list"
  st_sim_E_0 :: "'c list"
  st_m_z :: "'c list"
  st_events :: "event list"

text \<open>
  The \<^verbatim>\<open>if evotype == "real": ... elif evotype == "imag": ...\<close> at the entry has no
  \<^verbatim>\<open>else\<close>: for any other value the names \<^verbatim>\<open>gateAB\<close> and
  \<^verbatim>\<open>gateBA\<close> stay unbound, which is \<open>None\<close> here.
\<close>

definition make_gates ::
  "('a, 'c) linalg \<Rightarrow> string option \<Rightarrow> real \<Rightarrow> 'a \<Rightarrow> 'a \<Rightarrow> 'a \<Rightarrow> py_error + ('a \<times> 'a) option" where
  "make_gates K evotype tau A hamAB hamBA =
     (if evotype = Some ''real'' then
        and_then (k_gate_real K tau A hamAB) (\<lambda>gateAB.
        and_then (k_gate_real K tau A hamBA) (\<lambda>gateBA. Inr (Some (gateAB, gateBA))))
      else if evotype = Some ''imag'' then
        and_then (k_gate_imag K tau A hamAB) (\<lambda>gateAB.
        and_then (k_gate_imag K tau A hamBA) (\<lambda>gateBA. Inr (Some (gateAB, gateBA))))
      else Inr None)"

text \<open>
  The block "bring MPS to normal form" and "compute energy" of iteration \<open>k\<close>. The
  unused locals \<^verbatim>\<open>chitemp\<close> and \<^verbatim>\<open>enDiff\<close> are left out.
\<close>

definition canon_measure ::
  "('a, 'c) linalg \<Rightarrow> 'a \<Rightarrow> 'a \<Rightarrow> 'a option \<Rightarrow> int \<Rightarrow> ('a, 'c) tebd_state
     \<Rightarrow> py_error + ('a, 'c) tebd_state" where
  "canon_measure K hamAB hamBA magz k s =
     and_then (k_left_contract_MPS K (st_sigBA s) (st_sBA s) (st_A s) (st_sAB s) (st_B s))
       (\<lambda>(sigBA, sigAB).
     and_then (k_right_contract_MPS K (st_muAB s) (st_sBA s) (st_A s) (st_sAB s) (st_B s))
       (\<lambda>(muAB, muBA).
     and_then (k_orthog_MPS K sigBA muBA (st_B s) (st_sBA s) (st_A s)) (\<lambda>(B1, sBA1, A1).
     and_then (k_orthog_MPS K sigAB muAB A1 (st_sAB s) B1) (\<lambda>(A2, sAB2, B2).
     and_then (k_normalize K sBA1 A2 sAB2) (\<lambda>A3.
     and_then (k_normalize K sAB2 B2 sBA1) (\<lambda>B3.
     and_then (k_loc_density_MPS K A3 sAB2 B3 sBA1) (\<lambda>(rhoAB, rhoBA).
     and_then (k_bond_energy K hamAB rhoAB) (\<lambda>energyAB.
     and_then (k_bond_energy K hamBA rhoBA) (\<lambda>energyBA.
       (let s1 = s\<lparr>st_A := A3, st_B := B3, st_sAB := sAB2, st_sBA := sBA1,
                     st_sigBA := sigBA, st_muAB := muAB,
                     st_time := st_time s @ [k],
                     st_sim_E_0 := st_sim_E_0 s @ [k_half_sum K energyAB energyBA],
                     st_events := st_events s @ [CanonMeasure k]\<rparr>
        in case magz of
             None \<Rightarrow> Inr s1
           | Some mz \<Rightarrow>
               and_then (k_find_mz K A3 sAB2 B3 sBA1 mz) (\<lambda>mz_t.
                 Inr (s1\<lparr>st_m_z := st_m_z s @ [mz_t]\<rparr>))))))))))))"

text \<open>
  The block "do evolution of MPS through one time-step": the gate on the A-B link, then
  the gate on the B-A link. Reading the unbound \<^verbatim>\<open>gateAB\<close> raises.
\<close>

definition evolve ::
  "('a, 'c) linalg \<Rightarrow> ('a \<times> 'a) option \<Rightarrow> int \<Rightarrow> int \<Rightarrow> ('a, 'c) tebd_state
     \<Rightarrow> py_error + ('a, 'c) tebd_state" where
  "evolve K gates chi k s =
     (case gates of
        None \<Rightarrow> Inl (UnboundLocalError ''gateAB'')
      | Some (gateAB, gateBA) \<Rightarrow>
          and_then (k_apply_gate_MPS K gateAB (st_A s) (st_sAB s) (st_B s) (st_sBA s) chi)
            (\<lambda>(A1, sAB1, B1).
          and_then (k_apply_gate_MPS K gateBA B1 (st_sBA s) A1 sAB1 chi) (\<lambda>(B2, sBA2, A2).
            Inr (s\<lparr>st_A := A2, st_B := B2, st_sAB := sAB1, st_sBA := sBA2,
                    st_events := st_events s @ [Evolve k]\<rparr>))))"

text \<open>\<^verbatim>\<open>np.mod(k, m)\<close> on integers: the sign of the divisor, and 0 for the divisor 0.\<close>

definition np_mod :: "int \<Rightarrow> int \<Rightarrow> int" where
  "np_mod k m = (if m = 0 then 0 else k mod m)"

definition measure_due :: "int \<Rightarrow> int \<Rightarrow> int \<Rightarrow> bool" where
  "measure_due numiter midsteps k \<longleftrightarrow> np_mod k midsteps = 0 \<or> k = numiter"

definition iteration ::
  "('a, 'c) linalg \<Rightarrow> 'a \<Rightarrow> 'a \<Rightarrow> 'a option \<Rightarrow> ('a \<times> 'a) option \<Rightarrow> int \<Rightarrow> int \<Rightarrow> int \<Rightarrow> int
     \<Rightarrow> ('a, 'c) tebd_state \<Rightarrow> py_error + ('a, 'c) tebd_state" where
  "iteration K hamAB hamBA magz gates chi numiter midsteps k s =
     and_then (if measure_due numiter midsteps k
               then canon_measure K hamAB hamBA magz k s else Inr s)
       (\<lambda>s1. if k < numiter then evolve K gates chi k s1 else Inr s1)"

fun run_loop ::
  "('a, 'c) linalg \<Rightarrow> 'a \<Rightarrow> 'a \<Rightarrow> 'a option \<Rightarrow> ('a \<times> 'a) option \<Rightarrow> int \<Rightarrow> int \<Rightarrow> int \<Rightarrow> int list
     \<Rightarrow> ('a, 'c) tebd_state \<Rightarrow> py_error + ('a, 'c) tebd_state" where
  "run_loop K hamAB hamBA magz gates chi numiter midsteps [] s = Inr s"
| "run_loop K hamAB hamBA magz gates chi numiter midsteps (k # ks) s =
     and_then (iteration K hamAB hamBA magz gates chi numiter midsteps k s)
       (run_loop K hamAB hamBA magz gates chi numiter midsteps ks)"

text \<open>\<^verbatim>\<open>range(n)\<close>.\<close>

definition py_range :: "int \<Rightarrow> int list" where
  "py_range n = map int [0..<nat n]"

definition init_state :: "('a, 'c) linalg \<Rightarrow> 'a \<Rightarrow> 'a \<Rightarrow> 'a \<Rightarrow> 'a \<Rightarrow> ('a, 'c) tebd_state" where
  "init_state K A B sAB sBA =
     \<lparr>st_A = A, st_B = B, st_sAB = sAB, st_sBA = sBA,
      st_sigBA = k_eye_env K A 0, st_muAB = k_eye_env K A 2,
      st_time = [], st_sim_E_0 = [], st_m_z = [], st_events = []\<rparr>"

text \<open>doTEBD up to the end of its loop, and doTEBD with its nine results.\<close>

definition doTEBD_loop ::
  "('a, 'c) linalg \<Rightarrow> 'a \<Rightarrow> 'a \<Rightarrow> 'a \<Rightarrow> 'a \<Rightarrow> 'a \<Rightarrow> 'a \<Rightarrow> int \<Rightarrow> real \<Rightarrow> string option \<Rightarrow> int \<Rightarrow> int
     \<Rightarrow> 'a option \<Rightarrow> py_error + ('a, 'c) tebd_state" where
  "doTEBD_loop K hamAB hamBA A B sAB sBA chi tau evotype numiter midsteps magz =
     and_then (make_gates K evotype tau A hamAB hamBA) (\<lambda>gates.
       run_loop K hamAB hamBA magz gates chi numiter midsteps (py_range (numiter + 1))
         (init_state K A B sAB sBA))"

definition doTEBD ::
  "('a, 'c) linalg \<Rightarrow> 'a \<Rightarrow> 'a \<Rightarrow> 'a \<Rightarrow> 'a \<Rightarrow> 'a \<Rightarrow> 'a \<Rightarrow> int \<Rightarrow> real \<Rightarrow> string option \<Rightarrow> int \<Rightarrow> int
     \<Rightarrow> 'a option
     \<Rightarrow> py_error + ('a \<times> 'a \<times> 'a \<times> 'a \<times> 'a \<times> 'a \<times> int list \<times> 'c list \<times> 'c list)" where
  "doTEBD K hamAB hamBA A B sAB sBA chi tau evotype numiter midsteps magz =
     and_then (doTEBD_loop K hamAB hamBA A B sAB sBA chi tau evotype numiter midsteps magz)
       (\<lambda>s.
     and_then (k_loc_density_MPS K (st_A s) (st_sAB s) (st_B s) (st_sBA s)) (\<lambda>(rhoAB, rhoBA).
       Inr (st_A s, st_B s, st_sAB s, st_sBA s, rhoAB, rhoBA,
            st_time s, st_sim_E_0 s, st_m_z s)))"


subsection \<open>What one iteration and the whole loop append to the traces\<close>

lemma and_then_Inr_iff: "and_then m f = Inr y \<longleftrightarrow> (\<exists>x. m = Inr x \<and> f x = Inr y)"
  by (cases m) (simp_all add: and_then_def)











subsection \<open>Runs that return\<close>

text \<open>
  When none of the numerical functions raises and the evolution type is "real" or
  "imag", doTEBD returns: the loop is a bounded \<^verbatim>\<open>for\<close>.
\<close>

definition never_raises :: "('a, 'c) linalg \<Rightarrow> bool" where
  "never_raises K \<longleftrightarrow>
     (\<forall>t a h. \<exists>g. k_gate_real K t a h = Inr g) \<and> (\<forall>t a h. \<exists>g. k_gate_imag K t a h = Inr g)
   \<and> (\<forall>a b c d e. \<exists>r. k_left_contract_MPS K a b c d e = Inr r)
   \<and> (\<forall>a b c d e. \<exists>r. k_right_contract_MPS K a b c d e = Inr r)
   \<and> (\<forall>a b c d e. \<exists>r. k_orthog_MPS K a b c d e = Inr r)
   \<and> (\<forall>a b c. \<exists>r. k_normalize K a b c = Inr r)
   \<and> (\<forall>a b c d. \<exists>r. k_loc_density_MPS K a b c d = Inr r)
   \<and> (\<forall>a b. \<exists>r. k_bond_energy K a b = Inr r)
   \<and> (\<forall>a b c d e. \<exists>r. k_find_mz K a b c d e = Inr r)
   \<and> (\<forall>g a b c d e. \<exists>r. k_apply_gate_MPS K g a b c d e = Inr r)"

lemma and_then_returns:
  assumes "\<exists>x. m = Inr x" and "\<And>x. \<exists>y. f x = Inr y"
  shows "\<exists>y. and_then m f = Inr y"
  using assms by (auto simp: and_then_def)

lemma canon_measure_returns:
  assumes "never_raises K"
  shows "\<exists>s'. canon_measure K hamAB hamBA magz k s = Inr s'"
  unfolding canon_measure_def Let_def
  using assms unfolding never_raises_def
  by (intro and_then_returns) (auto split: prod.splits option.splits intro!: and_then_returns)

lemma evolve_returns:
  assumes "never_raises K"
  shows "\<exists>s'. evolve K (Some g) chi k s = Inr s'"
  unfolding evolve_def
  using assms unfolding never_raises_def
  by (auto split: prod.splits intro!: and_then_returns)

lemma iteration_returns:
  assumes "never_raises K"
  shows "\<exists>s'. iteration K hamAB hamBA magz (Some g) chi numiter midsteps k s = Inr s'"
  unfolding iteration_def
  using canon_measure_returns[OF assms] evolve_returns[OF assms]
  by (intro and_then_returns) auto

lemma run_loop_returns:
  assumes "never_raises K"
  shows "\<exists>s'. run_loop K hamAB hamBA magz (Some g) chi numiter midsteps ks s = Inr s'"
proof (induction ks arbitrary: s)
  case Nil
  then show ?case by simp
next
  case (Cons k ks)
  show ?case
    unfolding run_loop.simps
    by (rule and_then_returns) (use iteration_returns[OF assms] Cons.IH in auto)
qed

lemma doTEBD_returns:
  assumes "never_raises K" and "evotype = Some ''real'' \<or> evotype = Some ''imag''"
  shows "\<exists>out. doTEBD K hamAB hamBA A B sAB sBA chi tau evotype numiter midsteps magz = Inr out"
proof -
  have "\<exists>g. make_gates K evotype tau A hamAB hamBA = Inr (Some g)"
    using assms unfolding make_gates_def never_raises_def
    by (auto simp: and_then_Inr_iff)
  then obtain g where g: "make_gates K evotype tau A hamAB hamBA = Inr (Some g)" ..
  have "\<exists>s. doTEBD_loop K hamAB hamBA A B sAB sBA chi tau evotype numiter midsteps magz = Inr s"
    unfolding doTEBD_loop_def using run_loop_returns[OF assms(1)] by (simp add: g and_then_def)
  then show ?thesis
    unfolding doTEBD_def
    using assms(1) unfolding never_raises_def
    by (intro and_then_returns) (auto split: prod.splits)
qed
















section \<open>apply_gate_MPS and the weights of orthog_MPS\<close>

text \<open>
  The bond weights are vectors of floating-point numbers; the model takes them as lists
  of real numbers, so what is proved of them is proved of exact arithmetic and says
  nothing of rounding. A division by zero raises nothing in numpy: it gives
  \<^verbatim>\<open>inf\<close> or \<^verbatim>\<open>nan\<close>, which is no real number and is \<open>None\<close> here.
\<close>

definition np_true_divide :: "real \<Rightarrow> real \<Rightarrow> real option" where
  "np_true_divide x y = (if y = 0 then None else Some (x / y))"

text \<open>\<^verbatim>\<open>LA.norm(v)\<close> of a vector: the square root of the sum of the squares.\<close>

definition LA_norm :: "real list \<Rightarrow> real" where
  "LA_norm v = sqrt (sum_list (map (\<lambda>x. x\<^sup>2) v))"

text \<open>A boolean array entry used as a number: \<^verbatim>\<open>True\<close> is 1 and \<^verbatim>\<open>False\<close> is 0.\<close>

definition np_bool :: "bool \<Rightarrow> real" where
  "np_bool b = (if b then 1 else 0)"

text \<open>\<^verbatim>\<open>sBA_trim = sBA * (sBA > stol) + stol * (sBA < stol)\<close>, and \<^verbatim>\<open>1 / sBA_trim\<close>.\<close>

definition sBA_trim :: "real \<Rightarrow> real list \<Rightarrow> real list" where
  "sBA_trim stol sBA = map (\<lambda>s. s * np_bool (s > stol) + stol * np_bool (s < stol)) sBA"

definition np_reciprocal :: "real list \<Rightarrow> real option list" where
  "np_reciprocal v = map (\<lambda>x. np_true_divide 1 x) v"

text \<open>\<^verbatim>\<open>v / LA.norm(v)\<close>.\<close>

definition unit_scale :: "real list \<Rightarrow> real option list" where
  "unit_scale v = map (\<lambda>x. np_true_divide x (LA_norm v)) v"


text \<open>
  apply_gate_MPS on the shapes of its arrays and the entries of its weight vectors.
  \<open>chi\<close> is a bond dimension and is taken non-negative. \<open>svd_out\<close> stands for the
  outcome of \<^verbatim>\<open>LA.svd\<close> on the composite matrix: an exception, or the singular values
  \<open>stemp\<close>. The composite tensor is contracted by ncon and reshaped to a square matrix
  of side \<open>d * chiBA\<close>, which needs that many entries. \<^verbatim>\<open>stemp[range(chitemp)]\<close> are the
  first \<open>chitemp\<close> singular values; the returned tensors are reshaped to
  \<open>(chiBA, d, chitemp)\<close> and \<open>(chitemp, d, chiBA)\<close>.
\<close>

definition apply_gate_MPS ::
  "nat list \<Rightarrow> nat list \<Rightarrow> real list \<Rightarrow> nat list \<Rightarrow> real list \<Rightarrow> nat \<Rightarrow> real
     \<Rightarrow> py_error + real list \<Rightarrow> py_error + (nat list \<times> real option list \<times> nat list)" where
  "apply_gate_MPS gateAB A sAB B sBA chi stol svd_out =
     (let trimmed = sBA_trim stol sBA
      in if length A < 2 then Inl IndexError
         else
           (let d = A ! 1;
                chiBA = length trimmed;
                tensors = [[chiBA, chiBA], A, [length sAB, length sAB], B, [chiBA, chiBA], gateAB];
                connects = [[-1, 1], [1, 5, 2], [2, 4], [4, 6, 3], [3, -4], [-2, -3, 5, 6]]
            in case ncon tensors connects None True of
                 Inl e \<Rightarrow> Inl e
               | Inr Scalar \<Rightarrow> Inl NumpyError
               | Inr (Array sh ls) \<Rightarrow>
                   if np_prod sh \<noteq> (d * chiBA) * (d * chiBA) then Inl NumpyError
                   else
                     (case svd_out of
                        Inl e \<Rightarrow> Inl e
                      | Inr stemp \<Rightarrow>
                          (let chitemp = min chi (length stemp);
                               kept = np_take stemp [0..<chitemp]
                           in Inr ([chiBA, d, chitemp], unit_scale kept, [chitemp, d, chiBA])))))"


subsection \<open>The composite tensor of apply_gate_MPS\<close>

lemmas eval_simps = np_unique_def np_count_def np_mask_def np_delete_def np_take_def
  np_argsort_def np_intersect1d_def np_tensordot_def del_at_def np_prod_def Let_def

lemma upt_6: "[0..<6] = [0,1,2,3,4,5]" "[0..<5] = [0,1,2,3,4]" "[0..<4] = [0,1,2,3]"
  "[0..<3] = [0,1,2]" "[0..<2] = [0,1]" "[0..<1] = [0]" "[0..<Suc (Suc 0)] = [0, 1]"
  "[0..<Suc 0] = [0]"
  by (simp_all add: upt_rec)

lemma ncon_eval:
  assumes "tensors \<noteq> []" and "length connects = length tensors"
    and "check_inputs connects (concat connects) tensors
           (np_unique (filter (\<lambda>l. l > 0) (concat connects))) = Inr True"
    and "trace_pass [0..<length tensors]
           \<lparr>tensor_list = tensors, connect_list = connects,
            con_order = np_unique (filter (\<lambda>l. l > 0) (concat connects))\<rparr> = Inr s1"
    and "contract_pass s1 = Inr s2" and "outer_pass s2 = Inr s3"
  shows "ncon tensors connects None True = final_permutation s3"
  using assms by (simp add: ncon_def Let_def)

lemma composite_shape:
  "ncon [[chiBA, chiBA], [chiBA, d, chiAB], [chiAB, chiAB], [chiAB, d, chiBA], [chiBA, chiBA], [d, d, d, d]]
        [[-1, 1], [1, 5, 2], [2, 4], [4, 6, 3], [3, -4], [-2, -3, 5, 6]] None True
   = Inr (Array [chiBA, d, d, chiBA] [-1, -2, -3, -4])"
proof -
  let ?ts = "[[chiBA, chiBA], [chiBA, d, chiAB], [chiAB, chiAB], [chiAB, d, chiBA], [chiBA, chiBA], [d, d, d, d]]"
  let ?cs = "[[-1, 1], [1, 5, 2], [2, 4], [4, 6, 3], [3, -4], [-2, -3, 5, 6::int]]"
  let ?s0 = "\<lparr>tensor_list = ?ts, connect_list = ?cs, con_order = [1,2,3,4,5,6]\<rparr>"
  let ?s1 = "\<lparr>tensor_list = [[chiAB, chiAB], [chiAB, d, chiBA], [chiBA, chiBA], [d, d, d, d], [chiBA, d, chiAB]],
      connect_list = [[2, 4], [4, 6, 3], [3, -4], [-2, -3, 5, 6], [-1, 5, 2]],
      con_order = [2,3,4,5,6]\<rparr>"
  let ?s2 = "\<lparr>tensor_list = [[chiAB, d, chiBA], [chiBA, chiBA], [d, d, d, d], [chiAB, chiBA, d]],
      connect_list = [[4, 6, 3], [3, -4], [-2, -3, 5, 6], [4, -1, 5]],
      con_order = [3,4,5,6]\<rparr>"
  let ?s3 = "\<lparr>tensor_list = [[d, d, d, d], [chiAB, chiBA, d], [chiAB, d, chiBA]],
      connect_list = [[-2, -3, 5, 6], [4, -1, 5], [4, 6, -4]],
      con_order = [4,5,6]\<rparr>"
  let ?s4 = "\<lparr>tensor_list = [[d, d, d, d], [chiBA, d, d, chiBA]],
      connect_list = [[-2, -3, 5, 6], [-1, 5, 6, -4]],
      con_order = [5,6]\<rparr>"
  let ?s5 = "\<lparr>tensor_list = [[d, d, chiBA, chiBA]],
      connect_list = [[-2, -3, -1, -4]],
      con_order = []\<rparr>"
  have flat: "concat ?cs = [-1, 1, 1, 5, 2, 2, 4, 4, 6, 3, 3, -4, -2, -3, 5, 6]" by simp
  have ord: "np_unique (filter (\<lambda>l. l > 0) (concat ?cs)) = [1,2,3,4,5,6]" by code_simp
  have neg: "check_neg (filter (\<lambda>l. l < 0) (concat ?cs))
        (map (\<lambda>i. - int (Suc i)) [0..<length (filter (\<lambda>l. l < 0) (concat ?cs))]) = None"
    by code_simp
  have rk: "check_ranks ?cs ?ts = None"
    by (simp add: check_ranks_def upt_6)
  have ps: "check_pos (filter (\<lambda>l. l > 0) (concat ?cs)) (concat ?cs) (concat ?ts) [1,2,3,4,5,6] = None"
    by (simp add: np_count_def np_mask_def)
  have chk: "check_inputs ?cs (concat ?cs) ?ts [1,2,3,4,5,6] = Inr True"
    unfolding check_inputs_def Let_def rk neg ps ord by (simp add: ord)
  have tr: "trace_pass [0..<length ?ts] ?s0 = Inr ?s0"
    by (simp add: trace_step_def np_unique_def upt_6)
  have c1: "contract_step ?s0 = Inr ?s1" by (simp add: contract_step_def eval_simps upt_6)
  have c2: "contract_step ?s1 = Inr ?s2" by (simp add: contract_step_def eval_simps upt_6)
  have c3: "contract_step ?s2 = Inr ?s3" by (simp add: contract_step_def eval_simps upt_6)
  have c4: "contract_step ?s3 = Inr ?s4" by (simp add: contract_step_def eval_simps upt_6)
  have c5: "contract_step ?s4 = Inr ?s5" by (simp add: contract_step_def eval_simps upt_6)
  have cp: "contract_pass ?s0 = Inr ?s5"
    by (simp add: contract_pass.simps[of ?s0] contract_pass.simps[of ?s1] contract_pass.simps[of ?s2]
         contract_pass.simps[of ?s3] contract_pass.simps[of ?s4] contract_pass.simps[of ?s5]
         c1 c2 c3 c4 c5)
  have op: "outer_pass ?s5 = Inr ?s5" by (simp add: outer_pass.simps)
  have fp: "final_permutation ?s5 = Inr (Array [chiBA, d, d, chiBA] [-1, -2, -3, -4])"
    by (simp add: final_permutation_def np_argsort_def np_take_def upt_6)
  have "ncon ?ts ?cs None True = final_permutation ?s5"
  proof (rule ncon_eval)
    show "?ts \<noteq> []" by simp
    show "length ?cs = length ?ts" by simp
    show "check_inputs ?cs (concat ?cs) ?ts (np_unique (filter (\<lambda>l. l > 0) (concat ?cs))) = Inr True"
      unfolding ord by (rule chk)
    show "trace_pass [0..<length ?ts]
           \<lparr>tensor_list = ?ts, connect_list = ?cs,
            con_order = np_unique (filter (\<lambda>l. l > 0) (concat ?cs))\<rparr> = Inr ?s0"
      unfolding ord by (rule tr)
    show "contract_pass ?s0 = Inr ?s5" by (rule cp)
    show "outer_pass ?s5 = Inr ?s5" by (rule op)
  qed
  then show ?thesis by (simp only: fp)
qed



subsection \<open>The clamp of the incoming weights\<close>

lemma sBA_trim_at_tolerance: "sBA_trim stol [stol] = [0]"
  by (simp add: sBA_trim_def np_bool_def)

lemma sBA_trim_ge:
  assumes "0 < stol" and "x \<in> set (sBA_trim stol sBA)" and "stol \<notin> set sBA"
  shows "stol \<le> x"
  using assms by (auto simp: sBA_trim_def np_bool_def)


text \<open>
  Claim C5. The clamp is meant to keep every weight at or above \<open>stol\<close> (the source's
  comment: "ensure singular values are above tolerance threshold"), and does so for every
  non-negative weight other than \<open>stol\<close> itself (lemma \<open>sBA_trim_ge\<close>). A weight equal to
  \<open>stol\<close> is neither above nor below it, both comparisons are false, and the clamped
  weight is 0: with the default tolerance the vector \<open>[1e-7, 1]\<close> is clamped to \<open>[0, 1]\<close>
  and \<^verbatim>\<open>1 / sBA_trim\<close> divides by zero.
\<close>

theorem sBA_trim_zero_at_tolerance:
  "sBA_trim (1 / 10 ^ 7) [1 / 10 ^ 7, 1] = [0, 1]
   \<and> np_reciprocal (sBA_trim (1 / 10 ^ 7) [1 / 10 ^ 7, 1]) = [None, Some 1]"
  by (simp add: sBA_trim_def np_bool_def np_reciprocal_def np_true_divide_def)


subsection \<open>Unit norm\<close>

lemma sum_list_divide_const:
  "sum_list (map (\<lambda>x. f x / c) xs) = sum_list (map f xs) / (c::real)"
  by (induction xs) (simp_all add: add_divide_distrib)

lemma sum_squares_nonneg: "0 \<le> sum_list (map (\<lambda>x. x\<^sup>2) (v::real list))"
  by (induction v) simp_all

lemma sum_squares_zero_iff:
  "sum_list (map (\<lambda>x. x\<^sup>2) (v::real list)) = 0 \<longleftrightarrow> (\<forall>x\<in>set v. x = 0)"
proof (induction v)
  case Nil
  then show ?case by simp
next
  case (Cons a v)
  have "a\<^sup>2 + sum_list (map (\<lambda>x. x\<^sup>2) v) = 0 \<longleftrightarrow> a\<^sup>2 = 0 \<and> sum_list (map (\<lambda>x. x\<^sup>2) v) = 0"
    using sum_squares_nonneg[of v] by (intro add_nonneg_eq_0_iff) simp_all
  with Cons show ?case by simp
qed

lemma LA_norm_nonneg: "0 \<le> LA_norm v"
  using sum_squares_nonneg[of v] by (simp add: LA_norm_def)

lemma LA_norm_zero_iff: "LA_norm v = 0 \<longleftrightarrow> (\<forall>x\<in>set v. x = 0)"
  using sum_squares_zero_iff[of v] by (simp add: LA_norm_def)

lemma unit_scale_norm:
  assumes "LA_norm v \<noteq> 0"
  shows "unit_scale v = map Some (map (\<lambda>x. x / LA_norm v) v)"
    and "LA_norm (map (\<lambda>x. x / LA_norm v) v) = 1"
proof -
  show "unit_scale v = map Some (map (\<lambda>x. x / LA_norm v) v)"
    using assms by (simp add: unit_scale_def np_true_divide_def)
  have pos: "0 < LA_norm v" using assms LA_norm_nonneg[of v] by simp
  have "sum_list (map (\<lambda>x. (x / LA_norm v)\<^sup>2) v) = sum_list (map (\<lambda>x. x\<^sup>2) v) / (LA_norm v)\<^sup>2"
    by (simp add: power_divide sum_list_divide_const)
  also have "(LA_norm v)\<^sup>2 = sum_list (map (\<lambda>x. x\<^sup>2) v)"
    using sum_squares_nonneg[of v] by (simp add: LA_norm_def)
  finally have "sum_list (map (\<lambda>x. (x / LA_norm v)\<^sup>2) v) = 1"
    using pos by (simp add: LA_norm_def)
  then show "LA_norm (map (\<lambda>x. x / LA_norm v) v) = 1"
    by (simp add: LA_norm_def comp_def)
qed

lemma unit_scale_zero: "LA_norm v = 0 \<Longrightarrow> unit_scale v = map (\<lambda>x. None) v"
  by (simp add: unit_scale_def np_true_divide_def)




lemma np_take_upt: "np_take xs [0..<min n (length xs)] = take n xs"
  by (simp add: np_take_def list_eq_iff_nth_eq)

lemma length_sBA_trim [simp]: "length (sBA_trim stol sBA) = length sBA"
  by (simp add: sBA_trim_def)

lemma length_unit_scale [simp]: "length (unit_scale v) = length v"
  by (simp add: unit_scale_def)

lemma apply_gate_MPS_eval:
  assumes "length sAB = chiAB" and "length sBA = chiBA"
  shows "apply_gate_MPS [d, d, d, d] [chiBA, d, chiAB] sAB [chiAB, d, chiBA] sBA chi stol (Inr stemp)
         = Inr ([chiBA, d, min chi (length stemp)], unit_scale (take chi stemp),
                [min chi (length stemp), d, chiBA])"
proof -
  have p: "np_prod [chiBA, d, d, chiBA] = (d * chiBA) * (d * chiBA)"
    by (simp add: np_prod_def)
  show ?thesis
    unfolding apply_gate_MPS_def Let_def
    by (simp add: assms composite_shape p np_take_upt del: np_prod_def)
qed











subsection \<open>Truncation\<close>

text \<open>
  Claim C4, amended. For a gate of shape \<open>(d, d, d, d)\<close>, site tensors of shapes
  \<open>(chiBA, d, chiAB)\<close> and \<open>(chiAB, d, chiBA)\<close> and weight vectors of lengths \<open>chiAB\<close> and
  \<open>chiBA\<close>, when the decomposition returns the \<open>d * chiBA\<close> singular values of the
  composite matrix in descending order: apply_gate_MPS returns tensors of shapes
  \<open>(chiBA, d, m)\<close> and \<open>(m, d, chiBA)\<close> and a weight vector of length \<open>m\<close>, with
  \<open>m = min(chi, d * chiBA)\<close>; entry \<open>i\<close> of the vector is singular value \<open>i\<close> divided by
  the Euclidean norm of the first \<open>chi\<close> singular values (so the vector is the kept
  values rescaled, not the values themselves); no discarded value exceeds a kept one;
  and the returned entries, when they are numbers, are in descending order.
\<close>

theorem apply_gate_MPS_truncation:
  assumes "length sAB = chiAB" and "length sBA = chiBA"
    and "length stemp = d * chiBA" and "sorted_wrt (\<lambda>a b. b \<le> a) stemp"
  shows "\<exists>w. apply_gate_MPS [d, d, d, d] [chiBA, d, chiAB] sAB [chiAB, d, chiBA] sBA chi stol
                (Inr stemp)
              = Inr ([chiBA, d, min chi (d * chiBA)], w, [min chi (d * chiBA), d, chiBA])
          \<and> length w = min chi (d * chiBA)
          \<and> (\<forall>i<length w. w ! i = np_true_divide (stemp ! i) (LA_norm (take chi stemp)))
          \<and> (\<forall>i<length w. \<forall>j<length stemp. length w \<le> j \<longrightarrow> stemp ! j \<le> stemp ! i)
          \<and> (\<forall>v. w = map Some v \<longrightarrow> sorted_wrt (\<lambda>a b. b \<le> a) v)"
proof -
  define w where "w = unit_scale (take chi stemp)"
  have ev: "apply_gate_MPS [d, d, d, d] [chiBA, d, chiAB] sAB [chiAB, d, chiBA] sBA chi stol
                (Inr stemp)
              = Inr ([chiBA, d, min chi (d * chiBA)], w, [min chi (d * chiBA), d, chiBA])"
    using apply_gate_MPS_eval[OF assms(1,2), of d chi stol stemp] by (simp add: assms(3) w_def)
  have len: "length w = min chi (d * chiBA)"
    by (simp add: w_def assms(3) min.commute)
  have nth: "w ! i = np_true_divide (stemp ! i) (LA_norm (take chi stemp))" if "i < length w" for i
    using that by (simp add: w_def unit_scale_def)
  have big: "stemp ! j \<le> stemp ! i" if "i < length w" "j < length stemp" "length w \<le> j" for i j
  proof -
    from that have "i < j" by simp
    with assms(4) that(2) show ?thesis by (simp add: sorted_wrt_iff_nth_less)
  qed
  have srt: "sorted_wrt (\<lambda>a b. b \<le> a) v" if "w = map Some v" for v
  proof (cases "LA_norm (take chi stemp) = 0")
    case True
    then have "w = map (\<lambda>x. None) (take chi stemp)" by (simp add: w_def unit_scale_zero)
    with that have "v = []" by (cases v; cases "take chi stemp") auto
    then show ?thesis by simp
  next
    case False
    then have "w = map Some (map (\<lambda>x. x / LA_norm (take chi stemp)) (take chi stemp))"
      unfolding w_def by (rule unit_scale_norm(1))
    with that have "map Some v = map Some (map (\<lambda>x. x / LA_norm (take chi stemp)) (take chi stemp))"
      by simp
    then have v: "v = map (\<lambda>x. x / LA_norm (take chi stemp)) (take chi stemp)"
      by (rule map_injective) simp
    have "sorted_wrt (\<lambda>a b. b \<le> a) (take chi stemp)"
      using assms(4) by (rule sorted_wrt_take)
    then show ?thesis
      unfolding v sorted_wrt_map
      by (rule sorted_wrt_mono_rel[rotated]) (simp add: divide_right_mono LA_norm_nonneg)
  qed
  show ?thesis using ev len nth big srt by blast
qed


text \<open>Claim C4, amended, at \<open>d = 2\<close>, \<open>chiBA = 1\<close>, \<open>chiAB = 3\<close> and \<open>chi = 1\<close>.\<close>

theorem apply_gate_MPS_truncation_witness:
  "apply_gate_MPS [2, 2, 2, 2] [1, 2, 3] [1, 1, 1] [3, 2, 1] [1] 1 (1 / 10 ^ 7) (Inr [2, 0])
     = Inr ([1, 2, 1], [Some 1], [1, 2, 1])"
proof -
  have n: "LA_norm [2] = 2" by (simp add: LA_norm_def)
  obtain w where w: "apply_gate_MPS [2, 2, 2, 2] [1, 2, 3] [1, 1, 1] [3, 2, 1] [1] 1 (1 / 10 ^ 7)
        (Inr [2, 0]) = Inr ([1, 2, min 1 (2 * 1)], w, [min 1 (2 * 1), 2, 1])"
    and l: "length w = min 1 (2 * 1)"
    and v: "\<forall>i<length w. w ! i = np_true_divide ([2, 0] ! i) (LA_norm (take 1 [2, 0]))"
    using apply_gate_MPS_truncation[of "[1, 1, 1]" 3 "[1]" 1 "[2, 0]" 2 1 "1 / 10 ^ 7"]
    by auto
  from l v have "w = [Some 1]"
    by (cases w) (auto simp: np_true_divide_def n)
  with w show ?thesis by simp
qed


text \<open>
  Claim C4, as stated, fails: the returned vector does not consist of singular values
  of the composite matrix. For the singular values 2 and 0 it is \<open>[1, 0]\<close>.
\<close>

theorem apply_gate_MPS_rescaled_counterexample:
  "apply_gate_MPS [2, 2, 2, 2] [1, 2, 1] [1] [1, 2, 1] [1] 4 (1 / 10 ^ 7) (Inr [2, 0])
     = Inr ([1, 2, 2], [Some 1, Some 0], [2, 2, 1])
   \<and> [Some 1, Some 0] \<noteq> map Some [2, 0 :: real]"
proof -
  have n: "LA_norm [2, 0] = 2" by (simp add: LA_norm_def)
  show ?thesis
    using apply_gate_MPS_eval[of "[1]" 1 "[1]" 1 2 4 "1 / 10 ^ 7" "[2, 0]"]
    by (simp add: unit_scale_def np_true_divide_def n)
qed


end
